theory Spec2Isabelle
  imports Complex_Main "HOL-Library.AList"
begin

section \<open>Python values\<close>

text \<open>
  A Python \<open>float\<close> is an IEEE-754 binary64 number. \<open>Finite q\<close> is the double whose
  exact value is the rational \<open>q\<close> (\<open>Finite 0\<close> is \<open>+0.0\<close>); the other constructors are
  \<open>-0.0\<close>, the two infinities and not-a-number.
\<close>

datatype pyfloat = Finite rat | NegZero | PosInf | NegInf | NaN

text \<open>
  What \<open>response.json()\<close> returns, and what the script stores in its rows: \<open>None\<close>,
  \<open>bool\<close>, \<open>int\<close> (unbounded), \<open>float\<close>, \<open>str\<close>, \<open>list\<close> and \<open>dict\<close> with string keys
  (in insertion order).
\<close>

datatype pyval =
    JNull
  | JBool bool
  | JInt int
  | JFloat pyfloat
  | JString string
  | JArray "pyval list"
  | JObject "(string \<times> pyval) list"

text \<open>
  The exceptions the script can meet. The three \<open>raise Exception(...)\<close> sites of the
  source are kept apart by constructor: line 40 (\<open>Failed to refresh token: status - text\<close>),
  line 101 (\<open>API request failed after n attempts: e\<close>) and line 106
  (\<open>Unexpected error in API request\<close>). \<open>RequestException\<close> stands for every network-level
  fault raised by the \<open>requests\<close> library, \<open>HTTPError\<close> for the one raised by
  \<open>raise_for_status\<close>, \<open>JSONDecodeError\<close> for \<open>requests.exceptions.JSONDecodeError\<close>.
\<close>

datatype exn =
    ValueError string
  | KeyError string
  | TypeError
  | OverflowError
  | OSError string
  | RequestException string
  | HTTPError int
  | JSONDecodeError
  | Exception_refresh_failed int string
  | Exception_request_failed int exn
  | Exception_unexpected

text \<open>\<open>isinstance(e, requests.exceptions.RequestException)\<close>.\<close>

fun is_RequestException :: "exn \<Rightarrow> bool" where
  "is_RequestException (RequestException _) = True"
| "is_RequestException (HTTPError _) = True"
| "is_RequestException JSONDecodeError = True"
| "is_RequestException _ = False"

section \<open>The world outside the script\<close>

record params =
  after :: int
  page :: int
  per_page :: int

record request =
  url :: string
  req_headers :: "(string \<times> string) list"
  req_params :: "params option"

text \<open>
  A \<open>requests.Response\<close>: \<open>retry_after\<close> is \<open>response.headers.get('Retry-After')\<close>,
  \<open>json\<close> is the outcome of \<open>response.json()\<close>.
\<close>

record response =
  status_code :: int
  retry_after :: "string option"
  resp_text :: string
  json :: "exn + pyval"

record form =
  client_id :: string
  client_secret :: string
  refresh_token :: string
  grant_type :: string

text \<open>
  Writing \<open>.env\<close> with \<open>open(".env", "w")\<close> and \<open>f.write\<close>: it succeeds, or \<open>open\<close> raises
  (the file is untouched), or the write raises after the file was truncated (the string is
  what is left on disk).
\<close>

datatype file_outcome = Written | OpenFailed exn | WriteFailed exn string

text \<open>
  The environment is deterministic but arbitrary: the \<open>n\<close>-th call of \<open>requests.get\<close>,
  \<open>requests.post\<close> and of the file write each have an outcome that may depend on what
  was sent. \<open>py_str\<close> is Python's \<open>str()\<close> on a decoded JSON value that is not
  itself a string (see \<open>str_of\<close>), \<open>after_ts\<close> the
  timestamp computed from the clock at line 117, and the two sinks are the pandas
  \<open>to_csv\<close> calls (with what precedes each of them), which may raise.
\<close>

record world =
  requests_get :: "nat \<Rightarrow> request \<Rightarrow> exn + response"
  requests_post :: "nat \<Rightarrow> form \<Rightarrow> exn + response"
  write_file :: "nat \<Rightarrow> string \<Rightarrow> file_outcome"
  py_str :: "pyval \<Rightarrow> string"
  after_ts :: int
  to_csv_activities :: "(string \<times> pyval) list list \<Rightarrow> exn option"
  to_csv_summary :: "(string \<times> pyval) list list \<Rightarrow> exn option"

text \<open>The module-level configuration read from the environment at import time.\<close>

record config =
  ACCESS_TOKEN :: "string option"
  REFRESH_TOKEN :: "string option"
  CLIENT_ID :: "string option"
  CLIENT_SECRET :: "string option"




text \<open>What an observer sees of a run, in order.\<close>

datatype event =
    Get request
  | Post form
  | Sleep int
  | WriteEnv string
  | ToCsv string "(string \<times> pyval) list list"

text \<open>
  The mutable state: \<open>os.environ\<close>, the content of \<open>.env\<close>, the \<open>headers\<close> dictionary
  shared by all requests of a run, the number of calls made so far to each part of the
  world, and the trace of events.
\<close>

record state =
  environ :: "string \<rightharpoonup> string"
  dotenv :: "string option"
  headers :: "(string \<times> string) list"
  gets :: nat
  posts :: nat
  writes :: nat
  trace :: "event list"

section \<open>Builtins\<close>

text \<open>
  \<open>int(s)\<close> for a string of Latin-1 characters (CPython 3.11): optional whitespace, an
  optional sign, decimal digits with single underscores between them, optional
  whitespace; at most 4300 digits. Anything else raises \<open>ValueError\<close>.
\<close>

definition int_space :: "char \<Rightarrow> bool" where
  "int_space c = (of_char c \<in> {9, 10, 11, 12, 13, 32, 133, 160 :: nat})"

definition is_digit :: "char \<Rightarrow> bool" where
  "is_digit c = (48 \<le> (of_char c :: nat) \<and> (of_char c :: nat) \<le> 57)"

fun digits_ok :: "string \<Rightarrow> bool" where
  "digits_ok [] = False"
| "digits_ok [c] = is_digit c"
| "digits_ok (c # d # cs) =
     (is_digit c \<and> (if d = CHR ''_'' then digits_ok cs else digits_ok (d # cs)))"

definition digits_value :: "string \<Rightarrow> int" where
  "digits_value s = foldl (\<lambda>acc c. 10 * acc + (int (of_char c) - 48)) 0 (filter is_digit s)"

definition py_int :: "string \<Rightarrow> exn + int" where
  "py_int s =
     (let t = rev (dropWhile int_space (rev (dropWhile int_space s)));
          neg = (t \<noteq> [] \<and> hd t = CHR ''-'');
          body = (if t \<noteq> [] \<and> (hd t = CHR ''-'' \<or> hd t = CHR ''+'') then tl t else t)
      in if digits_ok body \<and> length (filter is_digit body) \<le> 4300
         then Inr (if neg then - digits_value body else digits_value body)
         else Inl (ValueError ''invalid literal for int() with base 10''))"

text \<open>
  \<open>time.sleep(secs)\<close> with an integer argument: a negative length raises \<open>ValueError\<close>,
  one that does not fit a 64-bit count of nanoseconds raises \<open>OverflowError\<close>.
\<close>

definition time_sleep :: "int \<Rightarrow> state \<Rightarrow> (exn + unit) \<times> state" where
  "time_sleep secs st =
     (if secs < 0 then (Inl (ValueError ''sleep length must be non-negative''), st)
      else if secs > 9223372036 then (Inl OverflowError, st)
      else (Inr (), st\<lparr>trace := trace st @ [Sleep secs]\<rparr>))"

text \<open>Truth value of an optional string: \<open>None\<close> and \<open>""\<close> are false.\<close>

definition truthy_str :: "string option \<Rightarrow> bool" where
  "truthy_str s = (case s of None \<Rightarrow> False | Some t \<Rightarrow> t \<noteq> [])"

text \<open>\<open>data[k]\<close> for a string key: only a \<open>dict\<close> can be subscripted by a string.\<close>

definition getitem :: "pyval \<Rightarrow> string \<Rightarrow> exn + pyval" where
  "getitem data k =
     (case data of
        JObject kvs \<Rightarrow> (case map_of kvs k of None \<Rightarrow> Inl (KeyError k) | Some v \<Rightarrow> Inr v)
      | _ \<Rightarrow> Inl TypeError)"

text \<open>
  \<open>os.environ[k] = v\<close>: the value must be a \<open>str\<close> (\<open>TypeError\<close> otherwise) without an
  embedded null character (\<open>ValueError\<close>).
\<close>

definition environ_setitem :: "string \<Rightarrow> pyval \<Rightarrow> state \<Rightarrow> exn + state" where
  "environ_setitem k v st =
     (case v of
        JString s \<Rightarrow>
          if CHR 0x00 \<in> set s then Inl (ValueError ''embedded null byte'')
          else Inr (st\<lparr>environ := (environ st)(k \<mapsto> s)\<rparr>)
      | _ \<Rightarrow> Inl TypeError)"

text \<open>\<open>response.raise_for_status()\<close> raises for the status codes 400 to 599 only.\<close>

definition raise_for_status :: "response \<Rightarrow> exn option" where
  "raise_for_status r =
     (if 400 \<le> status_code r \<and> status_code r < 600 then Some (HTTPError (status_code r))
      else None)"

text \<open>\<open>str(v)\<close>, also what an f-string does with \<open>{v}\<close>: a \<open>str\<close> is left as it is.\<close>

definition str_of :: "world \<Rightarrow> pyval \<Rightarrow> string" where
  "str_of w v = (case v of JString s \<Rightarrow> s | _ \<Rightarrow> py_str w v)"

section \<open>Floating-point arithmetic\<close>

text \<open>\<open>n.bit_length()\<close> of a positive integer (and \<open>0\<close> for the others).\<close>

function bit_length :: "int \<Rightarrow> int" where
  "bit_length n = (if n \<le> 0 then 0 else 1 + bit_length (n div 2))"
  by pat_completeness auto
termination
  by (relation "measure nat") auto

declare bit_length.simps [simp del]

definition pow2 :: "int \<Rightarrow> rat" where
  "pow2 e = (if 0 \<le> e then of_int (2 ^ nat e) else 1 / of_int (2 ^ nat (- e)))"

text \<open>For \<open>a > 0\<close>, the integer \<open>e\<close> with \<open>2^e \<le> a < 2^(e+1)\<close>.\<close>

definition floor_log2 :: "rat \<Rightarrow> int" where
  "floor_log2 a =
     (let k = bit_length (fst (quotient_of a)) - bit_length (snd (quotient_of a))
      in if pow2 k \<le> a then k else k - 1)"

text \<open>Rounding to the nearest integer, ties to the even one.\<close>

definition round_half_even :: "rat \<Rightarrow> int" where
  "round_half_even x =
     (let f = \<lfloor>x\<rfloor>; d = x - of_int f
      in if d < 1 / 2 then f
         else if 1 / 2 < d then f + 1
         else if even f then f else f + 1)"

text \<open>
  The double nearest to a rational (ties to even): 53 significant bits, least exponent
  \<open>-1074\<close> (subnormal numbers), overflow to an infinity when the rounded value reaches
  \<open>2^1024\<close> (its binary exponent is 1024 or more), and a negative number that rounds to
  zero gives \<open>-0.0\<close>.
\<close>

definition round_to_double :: "rat \<Rightarrow> pyfloat" where
  "round_to_double q =
     (if q = 0 then Finite 0
      else
        (let a = \<bar>q\<bar>;
             p = max (floor_log2 a - 52) (- 1074);
             m = round_half_even (a / pow2 p);
             r = of_int m * pow2 p
         in if 1024 \<le> floor_log2 r then (if 0 < q then PosInf else NegInf)
            else if m = 0 then (if 0 < q then Finite 0 else NegZero)
            else Finite (if 0 < q then r else - r)))"

text \<open>\<open>x / c\<close> and \<open>x * c\<close> for a float \<open>x\<close> and a positive finite double \<open>c\<close>.\<close>

definition float_div :: "pyfloat \<Rightarrow> rat \<Rightarrow> pyfloat" where
  "float_div x c = (case x of Finite q \<Rightarrow> round_to_double (q / c) | other \<Rightarrow> other)"

definition float_mul :: "pyfloat \<Rightarrow> rat \<Rightarrow> pyfloat" where
  "float_mul x c = (case x of Finite q \<Rightarrow> round_to_double (q * c) | other \<Rightarrow> other)"

text \<open>
  An \<open>int\<close> divided by an \<open>int\<close> (true division) and an \<open>int\<close> converted to \<open>float\<close> are
  correctly rounded, and raise \<open>OverflowError\<close> instead of giving an infinity.
\<close>

definition finite_or_overflow :: "pyfloat \<Rightarrow> exn + pyfloat" where
  "finite_or_overflow x =
     (case x of PosInf \<Rightarrow> Inl OverflowError | NegInf \<Rightarrow> Inl OverflowError | other \<Rightarrow> Inr other)"

definition int_truediv :: "int \<Rightarrow> int \<Rightarrow> exn + pyfloat" where
  "int_truediv i n = finite_or_overflow (round_to_double (of_int i / of_int n))"

definition int_to_float :: "int \<Rightarrow> exn + pyfloat" where
  "int_to_float i = finite_or_overflow (round_to_double (of_int i))"

text \<open>\<open>x / n\<close> for a decoded JSON value \<open>x\<close> and a positive integer literal \<open>n\<close>.\<close>

definition py_truediv :: "pyval \<Rightarrow> int \<Rightarrow> exn + pyfloat" where
  "py_truediv x n =
     (case x of
        JInt i \<Rightarrow> int_truediv i n
      | JBool b \<Rightarrow> int_truediv (if b then 1 else 0) n
      | JFloat f \<Rightarrow> Inr (float_div f (of_int n))
      | _ \<Rightarrow> Inl TypeError)"

text \<open>The literal \<open>3.6\<close> is the double \<open>8106479329266893 / 2^51\<close>.\<close>

definition c_3_6 :: rat where
  "c_3_6 = 8106479329266893 / 2251799813685248"

text \<open>\<open>x * 3.6\<close> for a decoded JSON value \<open>x\<close>.\<close>

definition py_mul_3_6 :: "pyval \<Rightarrow> exn + pyfloat" where
  "py_mul_3_6 x =
     (case x of
        JInt i \<Rightarrow> (case int_to_float i of Inl e \<Rightarrow> Inl e | Inr f \<Rightarrow> Inr (float_mul f c_3_6))
      | JBool b \<Rightarrow> Inr (float_mul (Finite (if b then 1 else 0)) c_3_6)
      | JFloat f \<Rightarrow> Inr (float_mul f c_3_6)
      | _ \<Rightarrow> Inl TypeError)"

text \<open>
  \<open>round(x, ndigits)\<close> for a float: the exact value is rounded to \<open>ndigits\<close> decimals
  (ties to even) and the decimal is converted back to the nearest double. Zeros,
  infinities and not-a-number round to themselves.
\<close>

definition py_round :: "pyfloat \<Rightarrow> nat \<Rightarrow> pyfloat" where
  "py_round x ndigits =
     (case x of
        Finite q \<Rightarrow>
          (let k = round_half_even (q * 10 ^ ndigits)
           in if k = 0 then (if q < 0 then NegZero else Finite 0)
              else round_to_double (of_int k / 10 ^ ndigits))
      | other \<Rightarrow> other)"

section \<open>Credential refresher\<close>

definition env_content :: "string \<Rightarrow> string \<Rightarrow> string \<Rightarrow> string \<Rightarrow> string \<Rightarrow> string" where
  "env_content cid secret access refresh expires =
     ''STRAVA_CLIENT_ID='' @ cid @ [CHR 0x0A] @
     ''STRAVA_CLIENT_SECRET='' @ secret @ [CHR 0x0A] @
     ''STRAVA_ACCESS_TOKEN='' @ access @ [CHR 0x0A] @
     ''STRAVA_REFRESH_TOKEN='' @ refresh @ [CHR 0x0A] @
     ''STRAVA_TOKEN_EXPIRES_AT='' @ expires @ [CHR 0x0A]"

text \<open>
  Lines 44 to 60 of \<open>refresh_access_token\<close>, after the token exchange returned \<open>data\<close>:
  the three assignments to \<open>os.environ\<close>, then the write of \<open>.env\<close>, then the return.
\<close>

definition store_tokens ::
  "world \<Rightarrow> string \<Rightarrow> string \<Rightarrow> pyval \<Rightarrow> state \<Rightarrow> (exn + pyval) \<times> state" where
  "store_tokens w cid secret data st =
     (case getitem data ''access_token'' of Inl e \<Rightarrow> (Inl e, st) | Inr a \<Rightarrow>
     (case environ_setitem ''STRAVA_ACCESS_TOKEN'' a st of Inl e \<Rightarrow> (Inl e, st) | Inr st1 \<Rightarrow>
     (case getitem data ''refresh_token'' of Inl e \<Rightarrow> (Inl e, st1) | Inr r \<Rightarrow>
     (case environ_setitem ''STRAVA_REFRESH_TOKEN'' r st1 of Inl e \<Rightarrow> (Inl e, st1) | Inr st2 \<Rightarrow>
     (case getitem data ''expires_at'' of Inl e \<Rightarrow> (Inl e, st2) | Inr x \<Rightarrow>
     (case environ_setitem ''STRAVA_TOKEN_EXPIRES_AT'' (JString (str_of w x)) st2 of
        Inl e \<Rightarrow> (Inl e, st2)
      | Inr st3 \<Rightarrow>
          (let content = env_content cid secret (str_of w a) (str_of w r) (str_of w x);
               st4 = st3\<lparr>writes := writes st3 + 1\<rparr>
           in (case write_file w (writes st3) content of
                 OpenFailed e \<Rightarrow> (Inl e, st4)
               | WriteFailed e left \<Rightarrow> (Inl e, st4\<lparr>dotenv := Some left\<rparr>)
               | Written \<Rightarrow>
                   (Inr a, st4\<lparr>dotenv := Some content,
                                trace := trace st4 @ [WriteEnv content]\<rparr>)))))))))"

definition refresh_access_token :: "world \<Rightarrow> config \<Rightarrow> state \<Rightarrow> (exn + pyval) \<times> state" where
  "refresh_access_token w cfg st =
     (if \<not> (truthy_str (REFRESH_TOKEN cfg) \<and> truthy_str (CLIENT_ID cfg)
             \<and> truthy_str (CLIENT_SECRET cfg))
      then (Inl (ValueError ''Missing refresh token, client ID, or client secret for token refresh''), st)
      else
        (let f = \<lparr>client_id = the (CLIENT_ID cfg), client_secret = the (CLIENT_SECRET cfg),
                   refresh_token = the (REFRESH_TOKEN cfg), grant_type = ''refresh_token''\<rparr>;
             st1 = st\<lparr>posts := posts st + 1, trace := trace st @ [Post f]\<rparr>
         in case requests_post w (posts st) f of
              Inl e \<Rightarrow> (Inl e, st1)
            | Inr r \<Rightarrow>
                if status_code r \<noteq> 200
                then (Inl (Exception_refresh_failed (status_code r) (resp_text r)), st1)
                else (case json r of
                        Inl e \<Rightarrow> (Inl e, st1)
                      | Inr data \<Rightarrow>
                          store_tokens w (the (CLIENT_ID cfg)) (the (CLIENT_SECRET cfg)) data st1)))"

section \<open>Resilient request executor\<close>

text \<open>How one pass through the body of a loop ends.\<close>

datatype 'a ctl = Continue | Return 'a | Raise exn

text \<open>\<open>time.sleep(secs)\<close> followed by \<open>continue\<close> (or by the end of the handler).\<close>

definition sleep_continue :: "int \<Rightarrow> state \<Rightarrow> 'a ctl \<times> state" where
  "sleep_continue secs st =
     (case time_sleep secs st of
        (Inl e, st1) \<Rightarrow> (Raise e, st1)
      | (Inr _, st1) \<Rightarrow> (Continue, st1))"

text \<open>Lines 69 to 73: the response has status 429.\<close>

definition rate_limited :: "response \<Rightarrow> state \<Rightarrow> 'a ctl \<times> state" where
  "rate_limited r st =
     (case (case retry_after r of None \<Rightarrow> Inr 60 | Some s \<Rightarrow> py_int s) of
        Inl e \<Rightarrow> (Raise e, st)
      | Inr retry_after_secs \<Rightarrow> sleep_continue retry_after_secs st)"

text \<open>
  Lines 78 to 84: status 401 on the first attempt. The handler of the inner \<open>try\<close>
  prints and raises again what \<open>refresh_access_token\<close> raised.
\<close>

definition refresh_continue :: "world \<Rightarrow> config \<Rightarrow> state \<Rightarrow> 'a ctl \<times> state" where
  "refresh_continue w cfg st =
     (case refresh_access_token w cfg st of
        (Inl e, st1) \<Rightarrow> (Raise e, st1)
      | (Inr new_token, st1) \<Rightarrow>
          (Continue,
           st1\<lparr>headers := AList.update ''Authorization''
                               (''Bearer '' @ str_of w new_token) (headers st1)\<rparr>))"

text \<open>
  Lines 68 to 97: what the \<open>try\<close> block does with a response. Falling off the end of
  the block, which happens when \<open>raise_for_status\<close> does not raise, goes on to the next
  iteration like \<open>continue\<close>.
\<close>

definition handle_response ::
  "world \<Rightarrow> config \<Rightarrow> int \<Rightarrow> nat \<Rightarrow> response \<Rightarrow> state \<Rightarrow> response ctl \<times> state" where
  "handle_response w cfg max_retries attempt r st =
     (if status_code r = 429 then rate_limited r st
      else if status_code r = 401 \<and> attempt = 0 then refresh_continue w cfg st
      else if status_code r = 200 then (Return r, st)
      else if int attempt < max_retries - 1 then sleep_continue (2 ^ attempt) st
      else (case raise_for_status r of
              Some e \<Rightarrow> (Raise e, st)
            | None \<Rightarrow> (Continue, st)))"

text \<open>
  The \<open>try\<close> block of \<open>make_api_request\<close> (lines 66 to 97) for one value of \<open>attempt\<close>.
\<close>

definition attempt_try ::
  "world \<Rightarrow> config \<Rightarrow> string \<Rightarrow> params option \<Rightarrow> int \<Rightarrow> nat \<Rightarrow> state \<Rightarrow> response ctl \<times> state" where
  "attempt_try w cfg u ps max_retries attempt st =
     (let rq = \<lparr>url = u, req_headers = headers st, req_params = ps\<rparr>;
          st1 = st\<lparr>gets := gets st + 1, trace := trace st @ [Get rq]\<rparr>
      in case requests_get w (gets st) rq of
           Inl e \<Rightarrow> (Raise e, st1)
         | Inr r \<Rightarrow> handle_response w cfg max_retries attempt r st1)"

text \<open>
  Lines 99 to 104: the handler of the \<open>try\<close> block, for an exception \<open>e\<close> raised in the
  block. It catches a \<open>RequestException\<close> only; what it raises is not caught again.
\<close>

definition handle_exception :: "int \<Rightarrow> nat \<Rightarrow> exn \<Rightarrow> state \<Rightarrow> response ctl \<times> state" where
  "handle_exception max_retries attempt e st =
     (if is_RequestException e then
        (if int attempt = max_retries - 1
         then (Raise (Exception_request_failed max_retries e), st)
         else sleep_continue (2 ^ attempt) st)
      else (Raise e, st))"

text \<open>One iteration of the loop: the \<open>try\<close> block with its handler.\<close>

definition attempt_body ::
  "world \<Rightarrow> config \<Rightarrow> string \<Rightarrow> params option \<Rightarrow> int \<Rightarrow> nat \<Rightarrow> state \<Rightarrow> response ctl \<times> state" where
  "attempt_body w cfg u ps max_retries attempt st =
     (case attempt_try w cfg u ps max_retries attempt st of
        (Raise e, st1) \<Rightarrow> handle_exception max_retries attempt e st1
      | other \<Rightarrow> other)"

text \<open>
  \<open>for attempt in range(max_retries)\<close>, and line 106 when the loop runs out of values.
\<close>

fun attempts ::
  "world \<Rightarrow> config \<Rightarrow> string \<Rightarrow> params option \<Rightarrow> int \<Rightarrow> nat list \<Rightarrow> state \<Rightarrow> (exn + response) \<times> state" where
  "attempts w cfg u ps max_retries [] st = (Inl Exception_unexpected, st)"
| "attempts w cfg u ps max_retries (attempt # rest) st =
     (case attempt_body w cfg u ps max_retries attempt st of
        (Continue, st1) \<Rightarrow> attempts w cfg u ps max_retries rest st1
      | (Return r, st1) \<Rightarrow> (Inr r, st1)
      | (Raise e, st1) \<Rightarrow> (Inl e, st1))"

definition make_api_request ::
  "world \<Rightarrow> config \<Rightarrow> string \<Rightarrow> params option \<Rightarrow> int \<Rightarrow> state \<Rightarrow> (exn + response) \<times> state" where
  "make_api_request w cfg u ps max_retries st =
     attempts w cfg u ps max_retries [0 ..< nat max_retries] st"

section \<open>Record normalizer\<close>

definition bind_exn :: "exn + 'a \<Rightarrow> ('a \<Rightarrow> exn + 'b) \<Rightarrow> exn + 'b" where
  "bind_exn m f = (case m of Inl e \<Rightarrow> Inl e | Inr x \<Rightarrow> f x)"

text \<open>\<open>d[k]\<close> and \<open>d.get(k, default)\<close> on the items of a \<open>dict\<close>.\<close>

definition dict_getitem :: "(string \<times> pyval) list \<Rightarrow> string \<Rightarrow> exn + pyval" where
  "dict_getitem kvs k = (case map_of kvs k of None \<Rightarrow> Inl (KeyError k) | Some v \<Rightarrow> Inr v)"

definition dict_get :: "(string \<times> pyval) list \<Rightarrow> string \<Rightarrow> pyval \<Rightarrow> pyval" where
  "dict_get kvs k dflt = (case map_of kvs k of None \<Rightarrow> dflt | Some v \<Rightarrow> v)"

text \<open>
  The dictionary display of lines 141 to 157, evaluated left to right. The default of
  \<open>sport_type\<close>, \<open>activity["type"]\<close>, is evaluated before \<open>get\<close> is called, so a missing
  \<open>type\<close> raises even when \<open>sport_type\<close> is there. Subscripting anything but a \<open>dict\<close>
  with a string raises \<open>TypeError\<close>.
\<close>

definition normalize_activity :: "pyval \<Rightarrow> exn + (string \<times> pyval) list" where
  "normalize_activity activity =
     (case activity of
        JObject kvs \<Rightarrow>
          bind_exn (dict_getitem kvs ''id'') (\<lambda>v_id.
          bind_exn (dict_getitem kvs ''name'') (\<lambda>v_name.
          bind_exn (dict_getitem kvs ''type'') (\<lambda>v_type.
          bind_exn (dict_getitem kvs ''start_date_local'') (\<lambda>v_start.
          bind_exn (py_truediv (dict_get kvs ''distance'' (JInt 0)) 1000) (\<lambda>distance.
          bind_exn (py_truediv (dict_get kvs ''moving_time'' (JInt 0)) 60) (\<lambda>moving.
          bind_exn (py_truediv (dict_get kvs ''elapsed_time'' (JInt 0)) 60) (\<lambda>elapsed.
          bind_exn (py_mul_3_6 (dict_get kvs ''average_speed'' (JInt 0))) (\<lambda>average.
          bind_exn (py_mul_3_6 (dict_get kvs ''max_speed'' (JInt 0))) (\<lambda>maxs.
          Inr [(''id'', v_id),
               (''name'', v_name),
               (''sport_type'', dict_get kvs ''sport_type'' v_type),
               (''start_date'', v_start),
               (''distance_km'', JFloat (py_round distance 2)),
               (''moving_time_min'', JFloat (py_round moving 1)),
               (''elapsed_time_min'', JFloat (py_round elapsed 1)),
               (''average_speed_kmph'', JFloat (py_round average 2)),
               (''max_speed_kmph'', JFloat (py_round maxs 2)),
               (''total_elevation_gain_m'', dict_get kvs ''total_elevation_gain'' (JString [])),
               (''average_heartrate'', dict_get kvs ''average_heartrate'' (JString [])),
               (''max_heartrate'', dict_get kvs ''max_heartrate'' (JString [])),
               (''calories'', dict_get kvs ''calories'' (JString [])),
               (''trainer'', dict_get kvs ''trainer'' (JInt 0)),
               (''commute'', dict_get kvs ''commute'' (JInt 0))])))))))))
      | _ \<Rightarrow> Inl TypeError)"

section \<open>Pager\<close>




definition API_URL :: string where
  "API_URL = ''https://www.strava.com/api/v3/athlete/activities''"


section \<open>The run\<close>



section \<open>Vocabulary for the properties\<close>

text \<open>The state after \<open>requests.get\<close> was called, and after a sleep of \<open>n\<close> seconds.\<close>

definition sent :: "string \<Rightarrow> params option \<Rightarrow> state \<Rightarrow> state" where
  "sent u ps st =
     st\<lparr>gets := gets st + 1,
        trace := trace st @ [Get \<lparr>url = u, req_headers = headers st, req_params = ps\<rparr>]\<rparr>"

definition slept :: "int \<Rightarrow> state \<Rightarrow> state" where
  "slept n st = st\<lparr>trace := trace st @ [Sleep n]\<rparr>"

text \<open>
  The wait a response asks for with its \<open>Retry-After\<close> header, when the header is absent
  (60 seconds) or is an integer that \<open>time.sleep\<close> accepts.
\<close>

definition retry_wait :: "response \<Rightarrow> int option" where
  "retry_wait r =
     (case retry_after r of
        None \<Rightarrow> Some 60
      | Some s \<Rightarrow>
          (case py_int s of
             Inl e \<Rightarrow> None
           | Inr n \<Rightarrow> if 0 \<le> n \<and> n \<le> 9223372036 then Some n else None))"

text \<open>
  A transient failure of one call of \<open>requests.get\<close>: a network-level fault or a
  server error (status 500 to 599), and the exception that stands for it.
\<close>

definition transient_failure :: "exn + response \<Rightarrow> bool" where
  "transient_failure out =
     (case out of
        Inl e \<Rightarrow> is_RequestException e
      | Inr r \<Rightarrow> 500 \<le> status_code r \<and> status_code r < 600)"

definition last_error :: "exn + response \<Rightarrow> exn" where
  "last_error out = (case out of Inl e \<Rightarrow> e | Inr r \<Rightarrow> HTTPError (status_code r))"

section \<open>Example runs\<close>

text \<open>
  A world given by the outcomes of the successive calls of \<open>requests.get\<close>, of
  \<open>requests.post\<close> and of the write of \<open>.env\<close>; past the end of a list the call meets a
  network fault, respectively a failing \<open>open\<close>.
\<close>

definition script :: "'a list \<Rightarrow> 'a \<Rightarrow> nat \<Rightarrow> 'a" where
  "script xs d n = (if n < length xs then xs ! n else d)"

definition example_world ::
  "(exn + response) list \<Rightarrow> (exn + response) list \<Rightarrow> file_outcome list \<Rightarrow> world" where
  "example_world get_outcomes post_outcomes file_outcomes =
     \<lparr>requests_get = (\<lambda>n rq. script get_outcomes (Inl (RequestException ''connection refused'')) n),
      requests_post = (\<lambda>n f. script post_outcomes (Inl (RequestException ''connection refused'')) n),
      write_file = (\<lambda>n content. script file_outcomes (OpenFailed (OSError ''read-only file system'')) n),
      py_str = (\<lambda>v. ''1767225600''),
      after_ts = 1700000000,
      to_csv_activities = (\<lambda>rows. None),
      to_csv_summary = (\<lambda>rows. None)\<rparr>"

definition example_config :: config where
  "example_config =
     \<lparr>ACCESS_TOKEN = Some ''old'', REFRESH_TOKEN = Some ''refresh'',
      CLIENT_ID = Some ''id'', CLIENT_SECRET = Some ''secret''\<rparr>"

definition example_state :: state where
  "example_state =
     \<lparr>environ = Map.empty, dotenv = None, headers = [(''Authorization'', ''Bearer old'')],
      gets = 0, posts = 0, writes = 0, trace = []\<rparr>"

text \<open>A response with a status code and a JSON body, and no \<open>Retry-After\<close> header.\<close>

definition answer :: "int \<Rightarrow> pyval \<Rightarrow> exn + response" where
  "answer c body = Inr \<lparr>status_code = c, retry_after = None, resp_text = [], json = Inr body\<rparr>"


text \<open>The body of a successful token exchange.\<close>

definition token_body :: pyval where
  "token_body =
     JObject [(''access_token'', JString ''new''), (''refresh_token'', JString ''refresh2''),
              (''expires_at'', JInt 1767225600)]"

definition with_token :: "world \<Rightarrow> pyval \<Rightarrow> state \<Rightarrow> state" where
  "with_token w new_token st =
     st\<lparr>headers := AList.update ''Authorization'' (''Bearer '' @ str_of w new_token) (headers st)\<rparr>"

text \<open>The state after a successful token exchange in the example world.\<close>

definition example_refreshed :: "state \<Rightarrow> state" where
  "example_refreshed st =
     st\<lparr>environ := (environ st)(''STRAVA_ACCESS_TOKEN'' \<mapsto> ''new'',
                                   ''STRAVA_REFRESH_TOKEN'' \<mapsto> ''refresh2'',
                                   ''STRAVA_TOKEN_EXPIRES_AT'' \<mapsto> ''1767225600''),
        dotenv := Some (env_content ''id'' ''secret'' ''new'' ''refresh2'' ''1767225600''),
        posts := posts st + 1,
        writes := writes st + 1,
        trace := trace st @
          [Post \<lparr>client_id = ''id'', client_secret = ''secret'', refresh_token = ''refresh'',
                 grant_type = ''refresh_token''\<rparr>,
           WriteEnv (env_content ''id'' ''secret'' ''new'' ''refresh2'' ''1767225600'')]\<rparr>"


text \<open>The field names of a normalized row, in the order of the dictionary display.\<close>

definition row_keys :: "string list" where
  "row_keys =
     [''id'', ''name'', ''sport_type'', ''start_date'', ''distance_km'', ''moving_time_min'',
      ''elapsed_time_min'', ''average_speed_kmph'', ''max_speed_kmph'',
      ''total_elevation_gain_m'', ''average_heartrate'', ''max_heartrate'', ''calories'',
      ''trainer'', ''commute'']"

text \<open>An activity with the four fields the normalizer subscripts, and nothing else.\<close>

definition bare_activity :: pyval where
  "bare_activity =
     JObject [(''id'', JInt 7), (''name'', JString ''Morning Run''), (''type'', JString ''Run''),
              (''start_date_local'', JString ''2025-01-01T07:00:00Z'')]"

text \<open>What the normalizer makes of it.\<close>

definition bare_row :: "(string \<times> pyval) list" where
  "bare_row =
     [(''id'', JInt 7), (''name'', JString ''Morning Run''), (''sport_type'', JString ''Run''),
      (''start_date'', JString ''2025-01-01T07:00:00Z''),
      (''distance_km'', JFloat (Finite 0)),
      (''moving_time_min'', JFloat (Finite 0)),
      (''elapsed_time_min'', JFloat (Finite 0)),
      (''average_speed_kmph'', JFloat (Finite 0)),
      (''max_speed_kmph'', JFloat (Finite 0)),
      (''total_elevation_gain_m'', JString []),
      (''average_heartrate'', JString []), (''max_heartrate'', JString []),
      (''calories'', JString []),
      (''trainer'', JInt 0), (''commute'', JInt 0)]"

text \<open>
  An activity with measurements: 12250.5 m, 1800 s moving, 1890 s elapsed, 2.5 m/s on
  average and 5 m/s at most.
\<close>

definition full_activity :: pyval where
  "full_activity =
     JObject [(''id'', JInt 8), (''name'', JString ''Evening Ride''), (''type'', JString ''Ride''),
              (''sport_type'', JString ''GravelRide''),
              (''start_date_local'', JString ''2025-01-02T18:00:00Z''),
              (''distance'', JFloat (Finite (24501 / 2))), (''moving_time'', JInt 1800),
              (''elapsed_time'', JInt 1890), (''average_speed'', JFloat (Finite (5 / 2))),
              (''max_speed'', JInt 5), (''total_elevation_gain'', JInt 120),
              (''trainer'', JBool False)]"

definition full_row :: "(string \<times> pyval) list" where
  "full_row =
     [(''id'', JInt 8), (''name'', JString ''Evening Ride''), (''sport_type'', JString ''GravelRide''),
      (''start_date'', JString ''2025-01-02T18:00:00Z''),
      (''distance_km'', JFloat (Finite (49 / 4))),
      (''moving_time_min'', JFloat (Finite 30)),
      (''elapsed_time_min'', JFloat (Finite (63 / 2))),
      (''average_speed_kmph'', JFloat (Finite 9)),
      (''max_speed_kmph'', JFloat (Finite 18)),
      (''total_elevation_gain_m'', JInt 120),
      (''average_heartrate'', JString []), (''max_heartrate'', JString []),
      (''calories'', JString []),
      (''trainer'', JBool False), (''commute'', JInt 0)]"


definition initial_headers :: "config \<Rightarrow> state \<Rightarrow> state" where
  "initial_headers cfg st =
     st\<lparr>headers := [(''Authorization'', ''Bearer '' @ the (ACCESS_TOKEN cfg))]\<rparr>"

text \<open>The calls of \<open>to_csv\<close> recorded in the trace of a state.\<close>

fun is_ToCsv :: "event \<Rightarrow> bool" where
  "is_ToCsv (ToCsv f rows) = True"
| "is_ToCsv _ = False"

definition csv_events :: "state \<Rightarrow> event list" where
  "csv_events st = filter is_ToCsv (trace st)"


section \<open>Properties of the request executor\<close>

subsection \<open>Every iteration calls \<open>requests.get\<close> once\<close>



lemma environ_setitem_gets: "environ_setitem k v st = Inr st' \<Longrightarrow> gets st' = gets st"
  by (auto simp: environ_setitem_def split: pyval.splits if_splits)

lemma store_tokens_gets: "gets (snd (store_tokens w c s d st)) = gets st"
  unfolding store_tokens_def Let_def
  by (auto split: sum.splits file_outcome.splits dest!: environ_setitem_gets)

lemma refresh_gets: "gets (snd (refresh_access_token w cfg st)) = gets st"
  by (auto simp: refresh_access_token_def Let_def store_tokens_gets split: sum.splits)






subsection \<open>One iteration of the executor\<close>

lemma sleep_continue_ok:
  "0 \<le> n \<Longrightarrow> n \<le> 9223372036 \<Longrightarrow> sleep_continue n st = (Continue, slept n st)"
  by (simp add: sleep_continue_def time_sleep_def slept_def)

lemma retry_wait_range: "retry_wait r = Some n \<Longrightarrow> 0 \<le> n \<and> n \<le> 9223372036"
  by (auto simp: retry_wait_def split: option.splits sum.splits if_splits)


lemma attempt_try_response:
  assumes "requests_get w (gets st) \<lparr>url = u, req_headers = headers st, req_params = ps\<rparr> = Inr r"
  shows "attempt_try w cfg u ps mr a st = handle_response w cfg mr a r (sent u ps st)"
  using assms by (simp add: attempt_try_def sent_def Let_def)

lemma attempt_try_exception:
  assumes "requests_get w (gets st) \<lparr>url = u, req_headers = headers st, req_params = ps\<rparr> = Inl e"
  shows "attempt_try w cfg u ps mr a st = (Raise e, sent u ps st)"
  using assms by (simp add: attempt_try_def sent_def Let_def)


lemma attempt_body_200:
  assumes "requests_get w (gets st) \<lparr>url = u, req_headers = headers st, req_params = ps\<rparr> = Inr r"
    and "status_code r = 200"
  shows "attempt_body w cfg u ps mr a st = (Return r, sent u ps st)"
  using assms
  by (simp add: attempt_body_def attempt_try_response handle_response_def)

lemma backoff_range: "a \<le> 33 \<Longrightarrow> (2::int) ^ a \<le> 9223372036"
proof -
  assume "a \<le> 33"
  then have "(2::int) ^ a \<le> 2 ^ 33" by (intro power_increasing) simp_all
  then show ?thesis by simp
qed

lemma attempt_body_transient_retry:
  assumes "transient_failure (requests_get w (gets st) \<lparr>url = u, req_headers = headers st, req_params = ps\<rparr>)"
    and "int a < mr - 1" and "a \<le> 33"
  shows "attempt_body w cfg u ps mr a st = (Continue, slept (2 ^ a) (sent u ps st))"
proof (cases "requests_get w (gets st) \<lparr>url = u, req_headers = headers st, req_params = ps\<rparr>")
  case (Inl e)
  with assms(1) have "is_RequestException e" by (simp add: transient_failure_def)
  with Inl assms(2,3) show ?thesis
    by (simp add: attempt_body_def attempt_try_exception handle_exception_def
        sleep_continue_ok backoff_range)
next
  case (Inr r)
  with assms(1) have "500 \<le> status_code r" "status_code r < 600"
    by (simp_all add: transient_failure_def)
  with Inr assms(2,3) show ?thesis
    by (simp add: attempt_body_def attempt_try_response handle_response_def
        sleep_continue_ok backoff_range)
qed

lemma attempt_body_transient_last:
  assumes "transient_failure (requests_get w (gets st) \<lparr>url = u, req_headers = headers st, req_params = ps\<rparr>)"
    and "int a = mr - 1"
  shows "attempt_body w cfg u ps mr a st =
    (Raise (Exception_request_failed mr
       (last_error (requests_get w (gets st) \<lparr>url = u, req_headers = headers st, req_params = ps\<rparr>))),
     sent u ps st)"
proof (cases "requests_get w (gets st) \<lparr>url = u, req_headers = headers st, req_params = ps\<rparr>")
  case (Inl e)
  with assms(1) have "is_RequestException e" by (simp add: transient_failure_def)
  with Inl assms(2) show ?thesis
    by (simp add: attempt_body_def attempt_try_exception handle_exception_def last_error_def)
next
  case (Inr r)
  with assms(1) have "500 \<le> status_code r" "status_code r < 600"
    by (simp_all add: transient_failure_def)
  with Inr assms(2) show ?thesis
    by (simp add: attempt_body_def attempt_try_response handle_response_def
        raise_for_status_def handle_exception_def last_error_def)
qed

subsection \<open>Retries with backoff\<close>

lemma upt3: "[0 ..< nat 3] = [0, 1, 2]" "[0 ..< 3] = [0, 1, 2]"
  by (simp_all add: upt_rec)

lemma sent_simps [simp]:
  "gets (sent u ps st) = gets st + 1" "headers (sent u ps st) = headers st"
  "gets (slept n st) = gets st" "headers (slept n st) = headers st"
  by (simp_all add: sent_def slept_def)

text \<open>
  Claim C5. With \<open>max_retries = 3\<close>, when the first two attempts fail transiently (a
  network fault or a 5xx response), the executor sleeps \<open>2^0 = 1\<close> second after the first
  and \<open>2^1 = 2\<close> seconds after the second, and makes a third request: if that one is
  answered with status 200 the executor returns this response; if it fails transiently
  too, the executor raises \<open>Exception("API request failed after 3 attempts: ...")\<close>
  around the last error (the \<open>HTTPError\<close> of the last status, or the last network fault).
\<close>

theorem transient_failures_then_success:
  assumes "transient_failure (requests_get w (gets st) \<lparr>url = u, req_headers = headers st, req_params = ps\<rparr>)"
    and "transient_failure (requests_get w (gets st + 1) \<lparr>url = u, req_headers = headers st, req_params = ps\<rparr>)"
  shows "(\<forall>r. requests_get w (gets st + 2) \<lparr>url = u, req_headers = headers st, req_params = ps\<rparr> = Inr r
            \<and> status_code r = 200
          \<longrightarrow> make_api_request w cfg u ps 3 st =
                (Inr r, sent u ps (slept 2 (sent u ps (slept 1 (sent u ps st))))))
       \<and> (transient_failure (requests_get w (gets st + 2) \<lparr>url = u, req_headers = headers st, req_params = ps\<rparr>)
          \<longrightarrow> make_api_request w cfg u ps 3 st =
                (Inl (Exception_request_failed 3
                   (last_error (requests_get w (gets st + 2) \<lparr>url = u, req_headers = headers st, req_params = ps\<rparr>))),
                 sent u ps (slept 2 (sent u ps (slept 1 (sent u ps st))))))"
proof -
  let ?s1 = "slept 1 (sent u ps st)"
  let ?s2 = "slept 2 (sent u ps ?s1)"
  have b0: "attempt_body w cfg u ps 3 0 st = (Continue, ?s1)"
    using attempt_body_transient_retry [OF assms(1), of 0 3 cfg] by simp
  have b1: "attempt_body w cfg u ps 3 (Suc 0) ?s1 = (Continue, ?s2)"
    using attempt_body_transient_retry [of w ?s1 u ps "Suc 0" 3 cfg] assms(2) by simp
  have unfold: "make_api_request w cfg u ps 3 st = attempts w cfg u ps 3 [2] ?s2"
    by (simp add: make_api_request_def upt3 b0 b1)
  show ?thesis
  proof (intro conjI allI impI)
    fix r
    assume "requests_get w (gets st + 2) \<lparr>url = u, req_headers = headers st, req_params = ps\<rparr> = Inr r
      \<and> status_code r = 200"
    then have "attempt_body w cfg u ps 3 2 ?s2 = (Return r, sent u ps ?s2)"
      using attempt_body_200 [of w ?s2 u ps r cfg 3 2] by simp
    with unfold show "make_api_request w cfg u ps 3 st = (Inr r, sent u ps ?s2)" by simp
  next
    assume t: "transient_failure (requests_get w (gets st + 2) \<lparr>url = u, req_headers = headers st, req_params = ps\<rparr>)"
    have "attempt_body w cfg u ps 3 2 ?s2 =
      (Raise (Exception_request_failed 3
         (last_error (requests_get w (gets st + 2) \<lparr>url = u, req_headers = headers st, req_params = ps\<rparr>))),
       sent u ps ?s2)"
      using attempt_body_transient_last [of w ?s2 u ps 2 3 cfg] t by simp
    with unfold show "make_api_request w cfg u ps 3 st =
                (Inl (Exception_request_failed 3
                   (last_error (requests_get w (gets st + 2) \<lparr>url = u, req_headers = headers st, req_params = ps\<rparr>))),
                 sent u ps ?s2)" by simp
  qed
qed

lemma example_world_get [simp]:
  "requests_get (example_world gs ps fs) n rq = script gs (Inl (RequestException ''connection refused'')) n"
  by (simp add: example_world_def)

lemma script_simps [simp]:
  "script (x # xs) d 0 = x" "script (x # xs) d (Suc n) = script xs d n" "script [] d n = d"
  by (simp_all add: script_def)

theorem transient_failures_then_success_witness:
  "fst (make_api_request (example_world [answer 500 JNull, Inl (RequestException ''timeout''), answer 200 (JArray [])] [] [])
          example_config API_URL None 3 example_state) = answer 200 (JArray [])
   \<and> fst (make_api_request (example_world [answer 500 JNull, answer 503 JNull, answer 502 JNull] [] [])
          example_config API_URL None 3 example_state) = Inl (Exception_request_failed 3 (HTTPError 502))"
  using transient_failures_then_success
          [of "example_world [answer 500 JNull, Inl (RequestException ''timeout''), answer 200 (JArray [])] [] []"
              example_state API_URL None example_config]
        transient_failures_then_success
          [of "example_world [answer 500 JNull, answer 503 JNull, answer 502 JNull] [] []"
              example_state API_URL None example_config]
  by (simp add: example_state_def answer_def transient_failure_def last_error_def numeral_2_eq_2)

subsection \<open>The loop is bounded\<close>












subsection \<open>Rate-limit waits\<close>



lemma example_state_simps [simp]:
  "gets example_state = 0" "posts example_state = 0" "writes example_state = 0"
  "headers example_state = [(''Authorization'', ''Bearer old'')]" "trace example_state = []"
  by (simp_all add: example_state_def)



subsection \<open>A second 401\<close>

lemma refresh_continue_ok:
  assumes "refresh_access_token w cfg st = (Inr new_token, st1)"
  shows "refresh_continue w cfg st = (Continue, with_token w new_token st1)"
  using assms by (simp add: refresh_continue_def with_token_def)

lemma sent_posts [simp]:
  "posts (sent u ps st) = posts st" "posts (slept n st) = posts st"
  by (simp_all add: sent_def slept_def)

lemma with_token_simps [simp]:
  "gets (with_token w t st) = gets st"
  "posts (with_token w t st) = posts st"
  "trace (with_token w t st) = trace st"
  by (simp_all add: with_token_def)

lemma attempt_body_401_first:
  assumes "requests_get w (gets st) \<lparr>url = u, req_headers = headers st, req_params = ps\<rparr> = Inr r"
    and "status_code r = 401"
    and "refresh_access_token w cfg (sent u ps st) = (Inr new_token, st1)"
  shows "attempt_body w cfg u ps mr 0 st = (Continue, with_token w new_token st1)"
  using assms
  by (simp add: attempt_body_def attempt_try_response handle_response_def refresh_continue_ok)

lemma attempt_body_401_later:
  assumes "requests_get w (gets st) \<lparr>url = u, req_headers = headers st, req_params = ps\<rparr> = Inr r"
    and "status_code r = 401" and "0 < a"
  shows "int a < mr - 1 \<Longrightarrow> a \<le> 33 \<Longrightarrow>
           attempt_body w cfg u ps mr a st = (Continue, slept (2 ^ a) (sent u ps st))"
    and "int a = mr - 1 \<Longrightarrow>
           attempt_body w cfg u ps mr a st =
             (Raise (Exception_request_failed mr (HTTPError 401)), sent u ps st)"
  using assms
  by (simp_all add: attempt_body_def attempt_try_response handle_response_def
      sleep_continue_ok backoff_range raise_for_status_def handle_exception_def)

text \<open>
  Claim C2, as the code has it (with the default \<open>max_retries = 3\<close>). When the first
  attempt is answered with 401, the refresh succeeds and the retried attempt is answered
  with 401 again, the executor does not refresh a second time and does not fail there: it
  treats the second 401 like any other failure, sleeps \<open>2^1 = 2\<close> seconds and makes a
  third request with the refreshed token. A 200 on that request is returned; a third 401
  raises \<open>Exception("API request failed after 3 attempts: ...")\<close> around the \<open>HTTPError\<close>.
\<close>

theorem second_401_is_retried:
  assumes "requests_get w (gets st) \<lparr>url = u, req_headers = headers st, req_params = ps\<rparr> = Inr r1"
    and "status_code r1 = 401"
    and "refresh_access_token w cfg (sent u ps st) = (Inr new_token, st1)"
    and "requests_get w (gets st + 1)
           \<lparr>url = u, req_headers = headers (with_token w new_token st1), req_params = ps\<rparr> = Inr r2"
    and "status_code r2 = 401"
  shows "make_api_request w cfg u ps 3 st =
           attempts w cfg u ps 3 [2] (slept 2 (sent u ps (with_token w new_token st1)))
       \<and> (\<forall>r3. requests_get w (gets st + 2)
                  \<lparr>url = u, req_headers = headers (with_token w new_token st1), req_params = ps\<rparr> = Inr r3
                \<and> status_code r3 = 200
             \<longrightarrow> make_api_request w cfg u ps 3 st =
                   (Inr r3, sent u ps (slept 2 (sent u ps (with_token w new_token st1)))))
       \<and> (\<forall>r3. requests_get w (gets st + 2)
                  \<lparr>url = u, req_headers = headers (with_token w new_token st1), req_params = ps\<rparr> = Inr r3
                \<and> status_code r3 = 401
             \<longrightarrow> make_api_request w cfg u ps 3 st =
                   (Inl (Exception_request_failed 3 (HTTPError 401)),
                    sent u ps (slept 2 (sent u ps (with_token w new_token st1)))))"
proof -
  let ?t = "with_token w new_token st1"
  let ?s2 = "slept 2 (sent u ps ?t)"
  have g1: "gets st1 = gets st + 1"
    using refresh_gets [of w cfg "sent u ps st"] assms(3) by simp
  have b0: "attempt_body w cfg u ps 3 0 st = (Continue, ?t)"
    using assms(1,2,3) by (rule attempt_body_401_first)
  have b1: "attempt_body w cfg u ps 3 (Suc 0) ?t = (Continue, ?s2)"
    using attempt_body_401_later(1) [of w ?t u ps r2 "Suc 0" 3 cfg] assms(4,5) g1 by simp
  have unfold: "make_api_request w cfg u ps 3 st = attempts w cfg u ps 3 [2] ?s2"
    by (simp add: make_api_request_def upt3 b0 b1)
  show ?thesis
  proof (intro conjI allI impI)
    show "make_api_request w cfg u ps 3 st = attempts w cfg u ps 3 [2] ?s2"
      by (rule unfold)
  next
    fix r3
    assume "requests_get w (gets st + 2)
        \<lparr>url = u, req_headers = headers ?t, req_params = ps\<rparr> = Inr r3 \<and> status_code r3 = 200"
    then have "attempt_body w cfg u ps 3 2 ?s2 = (Return r3, sent u ps ?s2)"
      using attempt_body_200 [of w ?s2 u ps r3 cfg 3 2] g1 by simp
    with unfold show "make_api_request w cfg u ps 3 st = (Inr r3, sent u ps ?s2)" by simp
  next
    fix r3
    assume "requests_get w (gets st + 2)
        \<lparr>url = u, req_headers = headers ?t, req_params = ps\<rparr> = Inr r3 \<and> status_code r3 = 401"
    then have "attempt_body w cfg u ps 3 2 ?s2 =
        (Raise (Exception_request_failed 3 (HTTPError 401)), sent u ps ?s2)"
      using attempt_body_401_later(2) [of w ?s2 u ps r3 2 3 cfg] g1 by simp
    with unfold show "make_api_request w cfg u ps 3 st =
        (Inl (Exception_request_failed 3 (HTTPError 401)), sent u ps ?s2)" by simp
  qed
qed

lemma example_world_simps [simp]:
  "requests_post (example_world gs ps fs) n f = script ps (Inl (RequestException ''connection refused'')) n"
  "write_file (example_world gs ps fs) n c = script fs (OpenFailed (OSError ''read-only file system'')) n"
  "py_str (example_world gs ps fs) v = ''1767225600''"
  by (simp_all add: example_world_def)

lemma example_refresh:
  assumes "posts st = 0" and "writes st = 0"
  shows "refresh_access_token (example_world gs [answer 200 token_body] [Written]) example_config st =
           (Inr (JString ''new''), example_refreshed st)"
  using assms
  by (simp add: refresh_access_token_def store_tokens_def getitem_def environ_setitem_def
      token_body_def example_config_def truthy_str_def str_of_def answer_def
      example_refreshed_def Let_def)

lemma answer_obtain:
  obtains r where "answer c b = Inr r" and "status_code r = c" and "json r = Inr b"
  by (simp add: answer_def)

theorem second_401_is_retried_witness:
  "make_api_request
     (example_world [answer 401 JNull, answer 401 JNull, answer 401 JNull] [answer 200 token_body] [Written])
     example_config API_URL None 3 example_state =
   (Inl (Exception_request_failed 3 (HTTPError 401)),
    sent API_URL None (slept 2 (sent API_URL None
      (with_token (example_world [answer 401 JNull, answer 401 JNull, answer 401 JNull] [answer 200 token_body] [Written])
         (JString ''new'') (example_refreshed (sent API_URL None example_state))))))"
proof -
  let ?w = "example_world [answer 401 JNull, answer 401 JNull, answer 401 JNull] [answer 200 token_body] [Written]"
  let ?t = "with_token ?w (JString ''new'') (example_refreshed (sent API_URL None example_state))"
  obtain r where r: "answer 401 JNull = Inr r" and s: "status_code r = 401"
    by (rule answer_obtain)
  have g0: "requests_get ?w (gets example_state)
      \<lparr>url = API_URL, req_headers = headers example_state, req_params = None\<rparr> = Inr r"
    by (simp add: r)
  have rf: "refresh_access_token ?w example_config (sent API_URL None example_state) =
      (Inr (JString ''new''), example_refreshed (sent API_URL None example_state))"
    by (rule example_refresh) (simp_all add: sent_def)
  have g1: "requests_get ?w (gets example_state + 1)
      \<lparr>url = API_URL, req_headers = headers ?t, req_params = None\<rparr> = Inr r"
    by (simp add: r)
  have g2: "requests_get ?w (gets example_state + 2)
      \<lparr>url = API_URL, req_headers = headers ?t, req_params = None\<rparr> = Inr r"
    by (simp add: r numeral_2_eq_2)
  from second_401_is_retried [OF g0 s rf g1 s] g2 s show ?thesis by blast
qed

text \<open>
  Claim C2 as it is stated fails: after a 401, a successful refresh and a second 401, the
  executor makes a third request, and here returns its response instead of raising.
\<close>

theorem second_401_counterexample:
  "fst (make_api_request
     (example_world [answer 401 JNull, answer 401 JNull, answer 200 (JArray [])] [answer 200 token_body] [Written])
     example_config API_URL None 3 example_state) = answer 200 (JArray [])
   \<and> gets (snd (make_api_request
     (example_world [answer 401 JNull, answer 401 JNull, answer 200 (JArray [])] [answer 200 token_body] [Written])
     example_config API_URL None 3 example_state)) = 3
   \<and> posts (snd (make_api_request
     (example_world [answer 401 JNull, answer 401 JNull, answer 200 (JArray [])] [answer 200 token_body] [Written])
     example_config API_URL None 3 example_state)) = 1"
proof -
  let ?w = "example_world [answer 401 JNull, answer 401 JNull, answer 200 (JArray [])] [answer 200 token_body] [Written]"
  let ?t = "with_token ?w (JString ''new'') (example_refreshed (sent API_URL None example_state))"
  let ?s2 = "slept 2 (sent API_URL None ?t)"
  obtain r where r: "answer 401 JNull = Inr r" and s: "status_code r = 401"
    by (rule answer_obtain)
  obtain ok where ok: "answer 200 (JArray []) = Inr ok" and sok: "status_code ok = 200"
    by (rule answer_obtain)
  have rf: "refresh_access_token ?w example_config (sent API_URL None example_state) =
      (Inr (JString ''new''), example_refreshed (sent API_URL None example_state))"
    by (rule example_refresh) (simp_all add: sent_def)
  have gt: "gets ?t = 1" "posts ?t = 1"
    by (simp_all add: example_refreshed_def sent_def)
  have b0: "attempt_body ?w example_config API_URL None 3 0 example_state = (Continue, ?t)"
  proof (rule attempt_body_401_first)
    show "requests_get ?w (gets example_state)
      \<lparr>url = API_URL, req_headers = headers example_state, req_params = None\<rparr> = Inr r"
      by (simp add: r)
  qed (rule s, rule rf)
  have b1: "attempt_body ?w example_config API_URL None 3 (Suc 0) ?t = (Continue, ?s2)"
    using attempt_body_401_later(1) [of ?w ?t API_URL None r "Suc 0" 3 example_config] gt s
    by (simp add: r)
  have b2: "attempt_body ?w example_config API_URL None 3 2 ?s2 = (Return ok, sent API_URL None ?s2)"
    using attempt_body_200 [of ?w ?s2 API_URL None ok example_config 3 2] gt sok
    by (simp add: ok numeral_2_eq_2)
  have "make_api_request ?w example_config API_URL None 3 example_state = (Inr ok, sent API_URL None ?s2)"
    by (simp add: make_api_request_def upt3 b0 b1 b2)
  then show ?thesis using gt by (simp add: ok)
qed

section \<open>Properties of the credential refresher\<close>






section \<open>Properties of the record normalizer\<close>

lemma bind_exn_simps [simp]:
  "bind_exn (Inr x) f = f x" "bind_exn (Inl e) f = Inl e"
  by (simp_all add: bind_exn_def)

text \<open>What a successful normalization returns, field by field.\<close>

lemma normalize_activity_Inr:
  assumes "normalize_activity activity = Inr row"
  obtains kvs v_id v_name v_type v_start distance moving elapsed average maxs where
    "activity = JObject kvs"
    "dict_getitem kvs ''id'' = Inr v_id"
    "dict_getitem kvs ''name'' = Inr v_name"
    "dict_getitem kvs ''type'' = Inr v_type"
    "dict_getitem kvs ''start_date_local'' = Inr v_start"
    "py_truediv (dict_get kvs ''distance'' (JInt 0)) 1000 = Inr distance"
    "py_truediv (dict_get kvs ''moving_time'' (JInt 0)) 60 = Inr moving"
    "py_truediv (dict_get kvs ''elapsed_time'' (JInt 0)) 60 = Inr elapsed"
    "py_mul_3_6 (dict_get kvs ''average_speed'' (JInt 0)) = Inr average"
    "py_mul_3_6 (dict_get kvs ''max_speed'' (JInt 0)) = Inr maxs"
    "row = [(''id'', v_id),
            (''name'', v_name),
            (''sport_type'', dict_get kvs ''sport_type'' v_type),
            (''start_date'', v_start),
            (''distance_km'', JFloat (py_round distance 2)),
            (''moving_time_min'', JFloat (py_round moving 1)),
            (''elapsed_time_min'', JFloat (py_round elapsed 1)),
            (''average_speed_kmph'', JFloat (py_round average 2)),
            (''max_speed_kmph'', JFloat (py_round maxs 2)),
            (''total_elevation_gain_m'', dict_get kvs ''total_elevation_gain'' (JString [])),
            (''average_heartrate'', dict_get kvs ''average_heartrate'' (JString [])),
            (''max_heartrate'', dict_get kvs ''max_heartrate'' (JString [])),
            (''calories'', dict_get kvs ''calories'' (JString [])),
            (''trainer'', dict_get kvs ''trainer'' (JInt 0)),
            (''commute'', dict_get kvs ''commute'' (JInt 0))]"
  using assms unfolding normalize_activity_def bind_exn_def
  by (auto split: pyval.splits sum.splits)

lemma normalize_bare: "normalize_activity bare_activity = Inr bare_row"
  by code_simp

lemma normalize_full: "normalize_activity full_activity = Inr full_row"
  by code_simp

text \<open>
  Claim C8. Every row the normalizer produces has the same fifteen keys, in the same order,
  whatever optional fields the raw record had.
\<close>

theorem normalized_row_keys:
  "normalize_activity activity = Inr row \<Longrightarrow> map fst row = row_keys"
  by (erule normalize_activity_Inr) (simp add: row_keys_def)

theorem normalized_row_keys_witness:
  "normalize_activity bare_activity = Inr bare_row \<and> map fst bare_row = row_keys
   \<and> normalize_activity full_activity = Inr full_row \<and> map fst full_row = row_keys"
  using normalized_row_keys [OF normalize_bare] normalized_row_keys [OF normalize_full]
    normalize_bare normalize_full
  by simp

subsection \<open>Absent fields\<close>

lemma zero_truediv: "py_truediv (JInt 0) n = Inr (Finite 0)"
  by (simp add: py_truediv_def int_truediv_def round_to_double_def finite_or_overflow_def)

lemma zero_mul_3_6: "py_mul_3_6 (JInt 0) = Inr (Finite 0)"
  by (simp add: py_mul_3_6_def int_to_float_def round_to_double_def finite_or_overflow_def
      float_mul_def)

lemma zero_round: "py_round (Finite 0) n = Finite 0"
  by (simp add: py_round_def round_half_even_def)

lemma dict_get_absent: "map_of kvs k = None \<Longrightarrow> dict_get kvs k d = d"
  by (simp add: dict_get_def)

text \<open>
  Claim C3, as the code has it. In every row the normalizer produces, each of the fifteen
  keys is present. When the raw record lacks \<open>total_elevation_gain\<close>, \<open>average_heartrate\<close>,
  \<open>max_heartrate\<close> or \<open>calories\<close>, the row has the empty string there. When it lacks
  \<open>distance\<close>, \<open>moving_time\<close>, \<open>elapsed_time\<close>, \<open>average_speed\<close> or \<open>max_speed\<close>, the row
  has the float \<open>0.0\<close> there (the default \<open>0\<close>, converted and rounded); when it lacks
  \<open>trainer\<close> or \<open>commute\<close>, the integer \<open>0\<close>; when it lacks \<open>sport_type\<close>, the value of \<open>type\<close>.
\<close>

theorem absent_fields_defaults:
  assumes "normalize_activity (JObject kvs) = Inr row"
  shows "(map_of kvs ''total_elevation_gain'' = None \<longrightarrow>
            map_of row ''total_elevation_gain_m'' = Some (JString []))
       \<and> (map_of kvs ''average_heartrate'' = None \<longrightarrow>
            map_of row ''average_heartrate'' = Some (JString []))
       \<and> (map_of kvs ''max_heartrate'' = None \<longrightarrow>
            map_of row ''max_heartrate'' = Some (JString []))
       \<and> (map_of kvs ''calories'' = None \<longrightarrow> map_of row ''calories'' = Some (JString []))
       \<and> (map_of kvs ''distance'' = None \<longrightarrow>
            map_of row ''distance_km'' = Some (JFloat (Finite 0)))
       \<and> (map_of kvs ''moving_time'' = None \<longrightarrow>
            map_of row ''moving_time_min'' = Some (JFloat (Finite 0)))
       \<and> (map_of kvs ''elapsed_time'' = None \<longrightarrow>
            map_of row ''elapsed_time_min'' = Some (JFloat (Finite 0)))
       \<and> (map_of kvs ''average_speed'' = None \<longrightarrow>
            map_of row ''average_speed_kmph'' = Some (JFloat (Finite 0)))
       \<and> (map_of kvs ''max_speed'' = None \<longrightarrow>
            map_of row ''max_speed_kmph'' = Some (JFloat (Finite 0)))
       \<and> (map_of kvs ''trainer'' = None \<longrightarrow> map_of row ''trainer'' = Some (JInt 0))
       \<and> (map_of kvs ''commute'' = None \<longrightarrow> map_of row ''commute'' = Some (JInt 0))
       \<and> (map_of kvs ''sport_type'' = None \<longrightarrow> map_of row ''sport_type'' = map_of kvs ''type'')
       \<and> map fst row = row_keys"
proof -
  from assms obtain v_id v_name v_type v_start distance moving elapsed average maxs where
    ty: "dict_getitem kvs ''type'' = Inr v_type"
    and d: "py_truediv (dict_get kvs ''distance'' (JInt 0)) 1000 = Inr distance"
    and m: "py_truediv (dict_get kvs ''moving_time'' (JInt 0)) 60 = Inr moving"
    and e: "py_truediv (dict_get kvs ''elapsed_time'' (JInt 0)) 60 = Inr elapsed"
    and a: "py_mul_3_6 (dict_get kvs ''average_speed'' (JInt 0)) = Inr average"
    and x: "py_mul_3_6 (dict_get kvs ''max_speed'' (JInt 0)) = Inr maxs"
    and row: "row = [(''id'', v_id),
            (''name'', v_name),
            (''sport_type'', dict_get kvs ''sport_type'' v_type),
            (''start_date'', v_start),
            (''distance_km'', JFloat (py_round distance 2)),
            (''moving_time_min'', JFloat (py_round moving 1)),
            (''elapsed_time_min'', JFloat (py_round elapsed 1)),
            (''average_speed_kmph'', JFloat (py_round average 2)),
            (''max_speed_kmph'', JFloat (py_round maxs 2)),
            (''total_elevation_gain_m'', dict_get kvs ''total_elevation_gain'' (JString [])),
            (''average_heartrate'', dict_get kvs ''average_heartrate'' (JString [])),
            (''max_heartrate'', dict_get kvs ''max_heartrate'' (JString [])),
            (''calories'', dict_get kvs ''calories'' (JString [])),
            (''trainer'', dict_get kvs ''trainer'' (JInt 0)),
            (''commute'', dict_get kvs ''commute'' (JInt 0))]"
    by (elim normalize_activity_Inr) simp
  have d0: "distance = Finite 0" if "map_of kvs ''distance'' = None"
    using d that by (simp add: dict_get_absent zero_truediv)
  have m0: "moving = Finite 0" if "map_of kvs ''moving_time'' = None"
    using m that by (simp add: dict_get_absent zero_truediv)
  have e0: "elapsed = Finite 0" if "map_of kvs ''elapsed_time'' = None"
    using e that by (simp add: dict_get_absent zero_truediv)
  have a0: "average = Finite 0" if "map_of kvs ''average_speed'' = None"
    using a that by (simp add: dict_get_absent zero_mul_3_6)
  have x0: "maxs = Finite 0" if "map_of kvs ''max_speed'' = None"
    using x that by (simp add: dict_get_absent zero_mul_3_6)
  have t: "map_of kvs ''type'' = Some v_type"
    using ty by (simp add: dict_getitem_def split: option.splits)
  show ?thesis
    unfolding row
    by (simp add: dict_get_absent zero_round d0 m0 e0 a0 x0 t row_keys_def)
qed

theorem absent_fields_defaults_witness:
  "map_of bare_row ''calories'' = Some (JString [])
   \<and> map_of bare_row ''distance_km'' = Some (JFloat (Finite 0))
   \<and> map_of bare_row ''trainer'' = Some (JInt 0)
   \<and> map_of bare_row ''sport_type'' = Some (JString ''Run'')"
  using absent_fields_defaults [OF normalize_bare [unfolded bare_activity_def]]
  by (simp add: bare_row_def)

text \<open>
  Claim C3 as it is stated fails: a record without \<open>distance\<close>, durations and speeds gets the
  number \<open>0.0\<close> in these five fields (and \<open>0\<close> for \<open>trainer\<close> and \<open>commute\<close>), not the empty
  string.
\<close>

theorem absent_numeric_field_counterexample:
  "normalize_activity
     (JObject [(''id'', JInt 7), (''name'', JString ''Morning Run''), (''type'', JString ''Run''),
               (''start_date_local'', JString ''2025-01-01T07:00:00Z'')]) =
   Inr [(''id'', JInt 7), (''name'', JString ''Morning Run''), (''sport_type'', JString ''Run''),
        (''start_date'', JString ''2025-01-01T07:00:00Z''),
        (''distance_km'', JFloat (Finite 0)),
        (''moving_time_min'', JFloat (Finite 0)),
        (''elapsed_time_min'', JFloat (Finite 0)),
        (''average_speed_kmph'', JFloat (Finite 0)),
        (''max_speed_kmph'', JFloat (Finite 0)),
        (''total_elevation_gain_m'', JString []),
        (''average_heartrate'', JString []), (''max_heartrate'', JString []),
        (''calories'', JString []),
        (''trainer'', JInt 0), (''commute'', JInt 0)]"
  by (simp add: normalize_activity_def dict_getitem_def dict_get_def zero_truediv zero_mul_3_6
      zero_round)

section \<open>Properties of the pager\<close>

subsection \<open>Fetching writes no output\<close>
















subsection \<open>One page at a time\<close>










subsection \<open>The run\<close>

lemma initial_headers_csv [simp]: "csv_events (initial_headers cfg st) = csv_events st"
  by (simp add: initial_headers_def csv_events_def)







lemma initial_headers_example [simp]: "initial_headers example_config example_state = example_state"
  by (simp add: initial_headers_def example_config_def example_state_def)

lemma csv_events_simps [simp]:
  "csv_events (sent u ps st) = csv_events st" "csv_events (slept n st) = csv_events st"
  "csv_events example_state = []"
  by (simp_all add: csv_events_def sent_def slept_def)



end
